theory Spec2Isabelle
  imports Main "HOL-Library.Word"
begin

section \<open>Lazy-tensor IR: shapes, nodes and outputs\<close>

text \<open>
  A shallow embedding of \<^verbatim>\<open>torch/csrc/lazy/core/shape.cpp\<close> and of the inline
  members of \<^verbatim>\<open>torch/csrc/lazy/core/ir.h\<close>. Machine integers are words of
  their width (a 64-bit platform: \<^verbatim>\<open>size_t\<close> is 64 bits wide); the element-type
  enumeration, the hash value type and the hash primitives are declared in headers that
  are not among the sources, so the model is parametric in them.
\<close>

subsection \<open>Shape\<close>

type_synonym int64_t = "64 word"
type_synonym size_t = "64 word"
type_synonym uint8_t = "8 word"

text \<open>Element types for the concrete examples; \<open>Shape\<close> itself is parametric in
  the element type (\<^verbatim>\<open>at::ScalarType\<close>).\<close>

datatype example_dtype = float32 | int64

text \<open>The members \<^verbatim>\<open>scalar_type_\<close>, \<^verbatim>\<open>sizes_\<close> and
  \<^verbatim>\<open>is_symbolic_\<close>, under the names of their accessors.\<close>

record 'st Shape =
  scalar_type :: 'st
  sizes :: "int64_t list"
  is_symbolic :: "bool list option"

text \<open>\<^verbatim>\<open>Shape::Shape(scalar_type, sizes)\<close>: copies the sizes as they are; the
  symbolic-dimension metadata starts absent.\<close>

definition Shape_ctor :: "'st \<Rightarrow> int64_t list \<Rightarrow> 'st Shape" where
  "Shape_ctor st szs = \<lparr>scalar_type = st, sizes = szs, is_symbolic = None\<rparr>"

text \<open>\<^verbatim>\<open>Shape::operator==\<close>.\<close>

definition shape_eq :: "'st Shape \<Rightarrow> 'st Shape \<Rightarrow> bool" where
  "shape_eq a b \<longleftrightarrow> scalar_type a = scalar_type b \<and> sizes a = sizes b"

text \<open>The implicit conversion of \<^verbatim>\<open>elts *= size\<close>: the signed 64-bit size becomes
  an unsigned 64-bit value with the same bits.\<close>

definition to_size_t :: "int64_t \<Rightarrow> size_t" where
  "to_size_t x = scast x"

text \<open>\<^verbatim>\<open>Shape::numel\<close>: the loop over \<^verbatim>\<open>sizes_\<close>, multiplying in
  \<^verbatim>\<open>size_t\<close>.\<close>

definition numel :: "'st Shape \<Rightarrow> size_t" where
  "numel s = foldl (\<lambda>elts size. elts * to_size_t size) 1 (sizes s)"

text \<open>\<^verbatim>\<open>Shape::with_symbolic_dims\<close>: a copy of the shape with the metadata
  replaced; nothing is checked.\<close>

definition with_symbolic_dims :: "'st Shape \<Rightarrow> bool list option \<Rightarrow> 'st Shape" where
  "with_symbolic_dims s symbolic_dims = (let copy = s in copy\<lparr>is_symbolic := symbolic_dims\<rparr>)"

subsection \<open>Hashing a shape\<close>

text \<open>
  \<^verbatim>\<open>Hash\<close>, \<^verbatim>\<open>DataHash\<close> and \<^verbatim>\<open>HashCombine\<close> are declared in
  \<^verbatim>\<open>torch/csrc/lazy/core/hash.h\<close>, which is not among the sources: they are
  parameters of the model, as is the type \<open>'h\<close> of hash values.
\<close>

record ('st, 'h) hash_fns =
  HashCombine :: "'h \<Rightarrow> 'h \<Rightarrow> 'h"
  Hash_scalar_type :: "'st \<Rightarrow> 'h"
  Hash_size_t :: "size_t \<Rightarrow> 'h"
  DataHash :: "uint8_t list \<Rightarrow> 'h"

text \<open>The bytes of \<^verbatim>\<open>sizes_.data()\<close>, \<^verbatim>\<open>sizes_.size() * sizeof(int64_t)\<close>
  of them: each size as its eight bytes, least significant first (a little-endian
  platform).\<close>

definition int64_bytes :: "int64_t \<Rightarrow> uint8_t list" where
  "int64_bytes w = map (\<lambda>k. ucast (drop_bit (8 * k) w)) [0..<8]"

definition raw_bytes :: "int64_t list \<Rightarrow> uint8_t list" where
  "raw_bytes xs = concat (map int64_bytes xs)"

text \<open>\<^verbatim>\<open>sizes_.size()\<close>, a \<^verbatim>\<open>size_t\<close>.\<close>

definition vector_size :: "'a list \<Rightarrow> size_t" where
  "vector_size xs = of_nat (length xs)"

text \<open>\<^verbatim>\<open>Shape::hash(bakeInSizes)\<close>.\<close>

definition Shape_hash :: "('st, 'h) hash_fns \<Rightarrow> 'st Shape \<Rightarrow> bool \<Rightarrow> 'h" where
  "Shape_hash H s bakeInSizes =
     (if bakeInSizes then
        HashCombine H (Hash_scalar_type H (scalar_type s)) (DataHash H (raw_bytes (sizes s)))
      else
        HashCombine H (Hash_scalar_type H (scalar_type s)) (Hash_size_t H (vector_size (sizes s))))"

subsection \<open>The symbolic-shape feature flag\<close>

text \<open>
  The state \<^verbatim>\<open>symbolicShapeEnabled\<close> reads and writes: the environment of the
  process, the flag \<^verbatim>\<open>FLAGS_ltc_enable_symbolic_shapes\<close> (defined with the default
  \<^verbatim>\<open>false\<close>), and the function's local static \<^verbatim>\<open>enabled\<close>, which has no
  value before the first call.
\<close>

record process =
  environ :: "string \<Rightarrow> string option"
  FLAGS_ltc_enable_symbolic_shapes :: bool
  static_enabled :: "bool option"

definition process_start :: "(string \<Rightarrow> string option) \<Rightarrow> process" where
  "process_start env =
     \<lparr>environ = env, FLAGS_ltc_enable_symbolic_shapes = False, static_enabled = None\<rparr>"

definition getenv :: "process \<Rightarrow> string \<Rightarrow> string option" where
  "getenv p name = environ p name"

text \<open>\<^verbatim>\<open>symbolicShapeEnabled\<close>: the static is initialised by the first call, from
  the environment; the flag is read by every call. The result comes with the new
  state.\<close>

definition symbolicShapeEnabled :: "process \<Rightarrow> bool \<times> process" where
  "symbolicShapeEnabled p =
     (let p' = (case static_enabled p of
                  None \<Rightarrow> p\<lparr>static_enabled := Some (getenv p ''LTC_ENABLE_SYMBOLIC_SHAPES'' \<noteq> None)\<rparr>
                | Some _ \<Rightarrow> p);
          enabled = (case static_enabled p' of Some b \<Rightarrow> b | None \<Rightarrow> False)
      in (enabled \<or> FLAGS_ltc_enable_symbolic_shapes p', p'))"

text \<open>What a process can do between two calls, and a call itself.\<close>

datatype event =
    Setenv string string
  | Unsetenv string
  | SetFlag bool
  | Call

fun step :: "process \<Rightarrow> event \<Rightarrow> process" where
  "step p (Setenv name v) = p\<lparr>environ := (environ p)(name \<mapsto> v)\<rparr>"
| "step p (Unsetenv name) = p\<lparr>environ := (environ p)(name := None)\<rparr>"
| "step p (SetFlag b) = p\<lparr>FLAGS_ltc_enable_symbolic_shapes := b\<rparr>"
| "step p Call = snd (symbolicShapeEnabled p)"

definition run :: "process \<Rightarrow> event list \<Rightarrow> process" where
  "run p evs = foldl step p evs"

subsection \<open>Output and Node\<close>

text \<open>A \<^verbatim>\<open>const Node*\<close> is the address of the node; 0 is the null pointer.\<close>

type_synonym Node_ptr = nat

record Output =
  node :: Node_ptr
  index :: size_t

text \<open>The default constructor and \<^verbatim>\<open>Output(node, index)\<close>.\<close>

definition Output_default :: Output where
  "Output_default = \<lparr>node = 0, index = 0\<rparr>"

definition Output_ctor :: "Node_ptr \<Rightarrow> size_t \<Rightarrow> Output" where
  "Output_ctor n i = \<lparr>node = n, index = i\<rparr>"

text \<open>\<^verbatim>\<open>Output::operator==\<close> and \<^verbatim>\<open>Output::operator!=\<close>.\<close>

definition Output_eq :: "Output \<Rightarrow> Output \<Rightarrow> bool" where
  "Output_eq a rhs \<longleftrightarrow> node a = node rhs \<and> index a = index rhs"

definition Output_ne :: "Output \<Rightarrow> Output \<Rightarrow> bool" where
  "Output_ne a rhs \<longleftrightarrow> \<not> Output_eq a rhs"

text \<open>
  The data members of \<^verbatim>\<open>Node\<close>. The operation kind, the hash values, the
  metadata and the user metadata objects are kept abstract (\<open>'op\<close>, \<open>'h\<close>, \<open>'md\<close>,
  \<open>'um\<close>); a null \<^verbatim>\<open>shared_ptr<UserMetaData>\<close> is \<open>None\<close>.
\<close>

record ('op, 'h, 'md, 'um, 'st) Node =
  op :: 'op
  num_outputs :: size_t
  node_hash :: 'h
  dag_hash_without_sizes :: 'h
  dag_hash_with_sizes :: 'h
  metadata :: 'md
  user_metadata :: "'um option"
  shapes :: "'st Shape list"
  operands :: "Node_ptr list"
  operands_as_outputs :: "Output list"

definition hash_without_sizes :: "('op, 'h, 'md, 'um, 'st) Node \<Rightarrow> 'h" where
  "hash_without_sizes n = dag_hash_without_sizes n"

definition hash_with_sizes :: "('op, 'h, 'md, 'um, 'st) Node \<Rightarrow> 'h" where
  "hash_with_sizes n = dag_hash_with_sizes n"

text \<open>\<^verbatim>\<open>Node::hash\<close>. \<^verbatim>\<open>Node::enableDynamicShape\<close> is only declared in
  \<^verbatim>\<open>ir.h\<close>; what it returns is a parameter.\<close>

definition Node_hash :: "bool \<Rightarrow> ('op, 'h, 'md, 'um, 'st) Node \<Rightarrow> 'h" where
  "Node_hash enableDynamicShape n =
     (if enableDynamicShape then dag_hash_without_sizes n else dag_hash_with_sizes n)"

text \<open>\<^verbatim>\<open>Node::SetUserMetadata\<close>: swaps the member with the argument and returns
  the argument, which then holds the old value. The node is returned as changed.\<close>

definition SetUserMetadata ::
  "('op, 'h, 'md, 'um, 'st) Node \<Rightarrow> 'um option \<Rightarrow> 'um option \<times> ('op, 'h, 'md, 'um, 'st) Node" where
  "SetUserMetadata n user_meta = (user_metadata n, n\<lparr>user_metadata := user_meta\<rparr>)"

subsection \<open>Symbolic shapes of tensors\<close>

text \<open>
  Failures: \<^verbatim>\<open>TORCH_INTERNAL_ASSERT\<close> with its message, and the access through
  \<^verbatim>\<open>operator->\<close> to an optional that holds no value.
\<close>

datatype error = InternalAssert string | BadOptionalAccess

text \<open>
  What \<^verbatim>\<open>get_symbolic_shape\<close> reads of a tensor: the sizes of a tensor that is not
  a lazy tensor (\<^verbatim>\<open>TryGetLtcTensor\<close> gives null), or the shape that
  \<^verbatim>\<open>GetIrValue()->shape()\<close> gives for a lazy tensor.
\<close>

datatype 'st Tensor = EagerTensor "int64_t list" | LtcTensor "'st Shape"

text \<open>
  Modelled from the spec: \<^verbatim>\<open>c10::SymbolicShape\<close> and its \<^verbatim>\<open>symbolicDims\<close> are
  not among the sources. A symbolic shape is either without rank or gives each dimension
  as a concrete size or as unknown; \<^verbatim>\<open>symbolicDims\<close> is the per-dimension
  symbolic/concrete breakdown, absent for a shape without rank.
\<close>

datatype SymbolicShape = SymbolicShape "int64_t option list option"

fun symbolicDims :: "SymbolicShape \<Rightarrow> bool list option" where
  "symbolicDims (SymbolicShape None) = None"
| "symbolicDims (SymbolicShape (Some ds)) = Some (map (\<lambda>d. d = None) ds)"

text \<open>Arguments: a list of tensors, a tensor, or any other value (\<open>'v\<close>); and the
  converted arguments handed to the shape-inference engine.\<close>

datatype ('st, 'v) IValue =
    TensorList "'st Tensor list"
  | TensorValue "'st Tensor"
  | OtherValue 'v

datatype ('st, 'v) SSAInput = SSAShape SymbolicShape | SSAValue "('st, 'v) IValue"

text \<open>\<^verbatim>\<open>get_symbolic_shape\<close>. After the assertion both sequences have the same
  length, so every index of the loop is in range.\<close>

definition get_symbolic_shape :: "'st Tensor \<Rightarrow> error + SymbolicShape" where
  "get_symbolic_shape tensor =
     (case tensor of
        EagerTensor tensor_sizes \<Rightarrow> Inr (SymbolicShape (Some (map Some tensor_sizes)))
      | LtcTensor input_shape \<Rightarrow>
          (case is_symbolic input_shape of
             None \<Rightarrow> Inr (SymbolicShape None)
           | Some is_sym \<Rightarrow>
               if length (sizes input_shape) \<noteq> length is_sym
               then Inl (InternalAssert ''Dims of two values are not consistent'')
               else Inr (SymbolicShape (Some
                      (map (\<lambda>i. if is_sym ! i then None else Some (sizes input_shape ! i))
                         [0..<length (sizes input_shape)])))))"

text \<open>The loop over \<^verbatim>\<open>args\<close> of \<^verbatim>\<open>applySymbolicShapesOnLT\<close>, and its inner
  loop over a tensor list; a failed assertion ends both.\<close>

fun convert_tensor_list ::
  "'st Tensor list \<Rightarrow> ('st, 'v) SSAInput list \<Rightarrow> error + ('st, 'v) SSAInput list" where
  "convert_tensor_list [] converted_args = Inr converted_args"
| "convert_tensor_list (tensor # rest) converted_args =
     (case get_symbolic_shape tensor of
        Inl e \<Rightarrow> Inl e
      | Inr ss \<Rightarrow> convert_tensor_list rest (converted_args @ [SSAShape ss]))"

fun convert_args ::
  "('st, 'v) IValue list \<Rightarrow> ('st, 'v) SSAInput list \<Rightarrow> error + ('st, 'v) SSAInput list" where
  "convert_args [] converted_args = Inr converted_args"
| "convert_args (TensorList tensor_list # rest) converted_args =
     (case convert_tensor_list tensor_list converted_args of
        Inl e \<Rightarrow> Inl e
      | Inr converted_args' \<Rightarrow> convert_args rest converted_args')"
| "convert_args (TensorValue tensor # rest) converted_args =
     (case get_symbolic_shape tensor of
        Inl e \<Rightarrow> Inl e
      | Inr ss \<Rightarrow> convert_args rest (converted_args @ [SSAShape ss]))"
| "convert_args (OtherValue v # rest) converted_args =
     convert_args rest (converted_args @ [SSAValue (OtherValue v)])"

text \<open>
  \<^verbatim>\<open>res_symbolic->\<close>: \<^verbatim>\<open>operator->\<close> of an optional requires that it holds a
  value. On an empty optional there is no object to give (builds with assertions stop
  there, the others have undefined behaviour); the model makes it a failure.
\<close>

definition optional_arrow :: "'a option \<Rightarrow> error + 'a" where
  "optional_arrow opt = (case opt of None \<Rightarrow> Inl BadOptionalAccess | Some v \<Rightarrow> Inr v)"

text \<open>The two loops over \<^verbatim>\<open>i < res_symbolic->size()\<close>, assigning to
  \<^verbatim>\<open>result_shapes[i]\<close>.\<close>

definition clear_symbolic_dims :: "nat \<Rightarrow> 'st Shape list \<Rightarrow> 'st Shape list" where
  "clear_symbolic_dims n result_shapes =
     foldl (\<lambda>shapes i. shapes[i := with_symbolic_dims (shapes ! i) None]) result_shapes [0..<n]"

definition apply_symbolic_dims :: "SymbolicShape list \<Rightarrow> 'st Shape list \<Rightarrow> 'st Shape list" where
  "apply_symbolic_dims res result_shapes =
     foldl (\<lambda>shapes i.
              case symbolicDims (res ! i) of
                None \<Rightarrow> shapes
              | Some sym_dims \<Rightarrow> shapes[i := with_symbolic_dims (shapes ! i) (Some sym_dims)])
       result_shapes [0..<length res]"

text \<open>
  \<^verbatim>\<open>applySymbolicShapesOnLT\<close>. The engine
  (\<^verbatim>\<open>jit::calculateSymbolicShapesOnOp\<close> on the schema found for
  \<^verbatim>\<open>schema_str\<close>) is a parameter. \<^verbatim>\<open>result_shapes\<close> is passed by reference:
  the function returns its new contents.
\<close>

definition applySymbolicShapesOnLT ::
  "(string \<Rightarrow> ('st, 'v) SSAInput list \<Rightarrow> SymbolicShape list option) \<Rightarrow>
   string \<Rightarrow> ('st, 'v) IValue list \<Rightarrow> 'st Shape list \<Rightarrow> error + 'st Shape list" where
  "applySymbolicShapesOnLT calculateSymbolicShapesOnOp schema_str args result_shapes =
     (case convert_args args [] of
        Inl e \<Rightarrow> Inl e
      | Inr converted_args \<Rightarrow>
          (let res_symbolic = calculateSymbolicShapesOnOp schema_str converted_args in
           if res_symbolic = None then
             (case optional_arrow res_symbolic of
                Inl e \<Rightarrow> Inl e
              | Inr res \<Rightarrow> Inr (clear_symbolic_dims (length res) result_shapes))
           else
             (case optional_arrow res_symbolic of
                Inl e \<Rightarrow> Inl e
              | Inr res \<Rightarrow>
                  if length res \<noteq> length result_shapes
                  then Inl (InternalAssert ''Result shape size is not consistent'')
                  else Inr (apply_symbolic_dims res result_shapes))))"

subsection \<open>The invariant of the symbolic-dimension metadata\<close>

text \<open>Metadata that is present has one entry for each dimension.\<close>

definition symbolic_dims_consistent :: "'st Shape \<Rightarrow> bool" where
  "symbolic_dims_consistent s =
     (case is_symbolic s of None \<Rightarrow> True | Some d \<Rightarrow> length d = length (sizes s))"

subsection \<open>Values for the examples\<close>

text \<open>An instance of the hash primitives over \<open>nat\<close>, and a node with two operands.\<close>

definition toy_hash_fns :: "(example_dtype, nat) hash_fns" where
  "toy_hash_fns =
     \<lparr>HashCombine = (\<lambda>a b. 31 * a + b),
      Hash_scalar_type = (\<lambda>t. case t of float32 \<Rightarrow> 6 | int64 \<Rightarrow> 4),
      Hash_size_t = unat,
      DataHash = foldl (\<lambda>h b. 257 * h + unat b) 7\<rparr>"

definition example_node :: "(string, nat, unit, string, example_dtype) Node" where
  "example_node =
     \<lparr>op = ''aten::add'', num_outputs = 1, node_hash = 11,
      dag_hash_without_sizes = 22, dag_hash_with_sizes = 33,
      metadata = (), user_metadata = None,
      shapes = [Shape_ctor float32 [2, 3]],
      operands = [1, 2], operands_as_outputs = [Output_ctor 1 0, Output_ctor 2 0]\<rparr>"

section \<open>Auxiliary facts\<close>

subsection \<open>The element count\<close>

lemma to_size_t_same_bits: "to_size_t x = x"
  by (simp add: to_size_t_def)

lemma numel_loop_prod:
  "foldl (\<lambda>elts size. elts * to_size_t size) a xs = a * prod_list xs"
  by (induction xs arbitrary: a) (simp_all add: to_size_t_same_bits mult.assoc)

lemma word_prod_list_sint:
  "prod_list xs = (word_of_int (prod_list (map sint xs)) :: 64 word)"
  by (induction xs) simp_all

lemma word_prod_list_unat:
  "prod_list xs = (of_nat (prod_list (map unat xs)) :: 64 word)"
  by (induction xs) simp_all

lemma numel_uint: "uint (numel s) = prod_list (map sint (sizes s)) mod 2 ^ 64"
proof -
  have "numel s = word_of_int (prod_list (map sint (sizes s)))"
    unfolding numel_def numel_loop_prod using word_prod_list_sint [of "sizes s"] by simp
  then show ?thesis by (simp add: uint_word_of_int)
qed

lemma numel_unat: "unat (numel s) = prod_list (map unat (sizes s)) mod 2 ^ 64"
proof -
  have "numel s = of_nat (prod_list (map unat (sizes s)))"
    unfolding numel_def numel_loop_prod using word_prod_list_unat [of "sizes s"] by simp
  then show ?thesis by (simp add: unat_of_nat)
qed

lemma prod_list_nonneg_int: "\<forall>x\<in>set xs. (0::int) \<le> x \<Longrightarrow> 0 \<le> prod_list xs"
  by (induction xs) simp_all

subsection \<open>The raw bytes of the sizes\<close>

lemma length_int64_bytes: "length (int64_bytes w) = 8"
  by (simp add: int64_bytes_def)

lemma int64_bytes_inj:
  assumes "int64_bytes a = int64_bytes b"
  shows "a = b"
proof (rule bit_word_eqI)
  fix n :: nat
  assume n: "n < LENGTH(64)"
  have bytes: "(ucast (drop_bit (8 * k) a) :: uint8_t) = ucast (drop_bit (8 * k) b)" if "k < 8" for k
  proof -
    from assms have "int64_bytes a ! k = int64_bytes b ! k" by simp
    with that show ?thesis by (simp add: int64_bytes_def)
  qed
  have k: "n div 8 < 8" using n by simp
  have "bit a n = bit (ucast (drop_bit (8 * (n div 8)) a) :: uint8_t) (n mod 8)"
    by (simp add: bit_ucast_iff bit_drop_bit_eq)
  also have "\<dots> = bit (ucast (drop_bit (8 * (n div 8)) b) :: uint8_t) (n mod 8)"
    using bytes [OF k] by simp
  also have "\<dots> = bit b n"
    by (simp add: bit_ucast_iff bit_drop_bit_eq)
  finally show "bit a n = bit b n" .
qed

lemma raw_bytes_inj: "raw_bytes xs = raw_bytes ys \<Longrightarrow> xs = ys"
proof (induction xs arbitrary: ys)
  case Nil
  then show ?case
    by (cases ys) (auto simp: raw_bytes_def int64_bytes_def)
next
  case (Cons x xs)
  show ?case
  proof (cases ys)
    case Nil
    with Cons.prems show ?thesis by (auto simp: raw_bytes_def int64_bytes_def)
  next
    case (Cons y ys')
    with Cons.prems have "int64_bytes x @ raw_bytes xs = int64_bytes y @ raw_bytes ys'"
      by (simp add: raw_bytes_def)
    then have "int64_bytes x = int64_bytes y" "raw_bytes xs = raw_bytes ys'"
      by (simp_all add: length_int64_bytes)
    with Cons.IH [of ys'] int64_bytes_inj [of x y] Cons show ?thesis by simp
  qed
qed

lemma length_raw_bytes: "length (raw_bytes xs) = 8 * length xs"
  by (induction xs) (simp_all add: raw_bytes_def length_int64_bytes)

lemma raw_bytes_nth:
  "i < length xs \<Longrightarrow> k < 8 \<Longrightarrow>
   raw_bytes xs ! (8 * i + k) = ucast (drop_bit (8 * k) (xs ! i))"
proof (induction xs arbitrary: i)
  case Nil
  then show ?case by simp
next
  case (Cons x xs)
  have split: "raw_bytes (x # xs) = int64_bytes x @ raw_bytes xs"
    by (simp add: raw_bytes_def)
  show ?case
  proof (cases i)
    case 0
    with Cons.prems show ?thesis
      by (simp add: split nth_append length_int64_bytes) (simp add: int64_bytes_def)
  next
    case (Suc j)
    with Cons.prems have j: "j < length xs" by simp
    have "raw_bytes (x # xs) ! (8 * i + k) = raw_bytes xs ! (8 * j + k)"
      using Suc by (simp add: split nth_append length_int64_bytes)
    with Cons.IH [OF j Cons.prems(2)] Suc show ?thesis by simp
  qed
qed

lemma vector_size_unat: "length xs < 2 ^ 64 \<Longrightarrow> unat (vector_size xs) = length xs"
  by (simp add: vector_size_def unat_of_nat)

lemma vector_size_differs:
  "length xs \<noteq> length ys \<Longrightarrow> length xs < 2 ^ 64 \<Longrightarrow> length ys < 2 ^ 64 \<Longrightarrow>
   vector_size xs \<noteq> vector_size ys"
  using vector_size_unat [of xs] vector_size_unat [of ys] by auto

subsection \<open>The cached environment lookup\<close>

lemma step_static: "static_enabled p = Some c \<Longrightarrow> static_enabled (step p ev) = Some c"
  by (cases ev) (simp_all add: symbolicShapeEnabled_def)

lemma run_static: "static_enabled p = Some c \<Longrightarrow> static_enabled (run p evs) = Some c"
  unfolding run_def by (induction evs arbitrary: p) (simp_all add: step_static)

lemma call_cached: "static_enabled p = Some c \<Longrightarrow>
   fst (symbolicShapeEnabled p) = (c \<or> FLAGS_ltc_enable_symbolic_shapes p)"
  by (simp add: symbolicShapeEnabled_def)

lemma call_first: "static_enabled p = None \<Longrightarrow>
   symbolicShapeEnabled p = (getenv p ''LTC_ENABLE_SYMBOLIC_SHAPES'' \<noteq> None \<or> FLAGS_ltc_enable_symbolic_shapes p,
     p\<lparr>static_enabled := Some (getenv p ''LTC_ENABLE_SYMBOLIC_SHAPES'' \<noteq> None)\<rparr>)"
  by (simp add: symbolicShapeEnabled_def)

section \<open>The claims\<close>

subsection \<open>Applying inferred symbolic shapes\<close>

text \<open>
  Claim C1 says that a call of \<open>applySymbolicShapesOnLT\<close> for which the engine returns
  no result leaves the result shapes alone (or clears their metadata) and does not fail.
  The code does not do that: the branch taken for an absent result reads
  \<^verbatim>\<open>res_symbolic->size()\<close> of the empty optional, so whenever the arguments
  convert and the engine returns nothing the call fails at that access, whatever the
  result shapes are.
\<close>

theorem applySymbolicShapesOnLT_no_result:
  "convert_args args [] = Inr converted_args \<Longrightarrow>
   calculateSymbolicShapesOnOp schema_str converted_args = None \<Longrightarrow>
   applySymbolicShapesOnLT calculateSymbolicShapesOnOp schema_str args result_shapes
     = Inl BadOptionalAccess"
  by (simp add: applySymbolicShapesOnLT_def optional_arrow_def)

theorem applySymbolicShapesOnLT_no_result_witness:
  "convert_args [TensorValue (EagerTensor [2, 3]) :: (example_dtype, unit) IValue] []
     = Inr [SSAShape (SymbolicShape (Some [Some 2, Some 3]))]
   \<and> applySymbolicShapesOnLT (\<lambda>_ _. None) ''aten::relu(Tensor self) -> Tensor''
        [TensorValue (EagerTensor [2, 3]) :: (example_dtype, unit) IValue]
        [with_symbolic_dims (Shape_ctor float32 [2, 3]) (Some [True, False])]
     = Inl BadOptionalAccess"
  using applySymbolicShapesOnLT_no_result
    [of "[TensorValue (EagerTensor [2, 3])]" "[SSAShape (SymbolicShape (Some [Some 2, Some 3]))]"
        "\<lambda>_ _. None" "''aten::relu(Tensor self) -> Tensor''"
        "[with_symbolic_dims (Shape_ctor float32 [2, 3]) (Some [True, False])]"]
  by (simp add: get_symbolic_shape_def)

subsection \<open>The hash of a node\<close>

text \<open>
  Claim C2. For every node: when the dynamic-shape flag is off, \<open>hash\<close> is
  \<open>hash_with_sizes\<close>; when it is on, \<open>hash\<close> is \<open>hash_without_sizes\<close>.
\<close>

theorem Node_hash_selects:
  "(\<not> enableDynamicShape \<longrightarrow> Node_hash enableDynamicShape n = hash_with_sizes n)
   \<and> (enableDynamicShape \<longrightarrow> Node_hash enableDynamicShape n = hash_without_sizes n)"
  by (simp add: Node_hash_def hash_with_sizes_def hash_without_sizes_def)

theorem Node_hash_selects_witness:
  "Node_hash False example_node = 33 \<and> hash_with_sizes example_node = 33
   \<and> Node_hash True example_node = 22 \<and> hash_without_sizes example_node = 22"
  using Node_hash_selects [of False example_node] Node_hash_selects [of True example_node]
  by (simp add: example_node_def hash_with_sizes_def hash_without_sizes_def)

subsection \<open>The two hashes of a shape\<close>

text \<open>
  Claim C3. With \<open>bakeInSizes\<close> the hash of a shape combines the hash of the scalar
  type with the hash of the raw bytes of the sizes; without, it combines the hash of the
  scalar type with the hash of the number of dimensions, \<open>length (sizes s)\<close> as a
  \<^verbatim>\<open>size_t\<close> (which reads back as the length itself below \<open>2^64\<close>). The raw bytes
  are eight for each size, byte \<open>k\<close> of size \<open>i\<close> at position \<open>8 * i + k\<close>. So for two
  shapes of the same scalar type and rank and different sizes, the hash without sizes is
  the same, and the bytes that the hash with sizes folds in are different; and for two
  shapes of different rank the number handed to the hash without sizes is different.
\<close>

theorem Shape_hash_variants:
  "Shape_hash H s True =
     HashCombine H (Hash_scalar_type H (scalar_type s)) (DataHash H (raw_bytes (sizes s)))
   \<and> Shape_hash H s False =
     HashCombine H (Hash_scalar_type H (scalar_type s))
       (Hash_size_t H (word_of_nat (length (sizes s))))
   \<and> (length (sizes s) < 2 ^ 64 \<longrightarrow> unat (vector_size (sizes s)) = length (sizes s))
   \<and> length (raw_bytes (sizes s)) = 8 * length (sizes s)
   \<and> (i < length (sizes s) \<and> k < 8 \<longrightarrow>
        raw_bytes (sizes s) ! (8 * i + k) = ucast (drop_bit (8 * k) (sizes s ! i)))
   \<and> (scalar_type a = scalar_type b \<and> length (sizes a) = length (sizes b) \<and> sizes a \<noteq> sizes b
        \<longrightarrow> Shape_hash H a False = Shape_hash H b False
            \<and> raw_bytes (sizes a) \<noteq> raw_bytes (sizes b))
   \<and> (length (sizes a) \<noteq> length (sizes b)
        \<and> length (sizes a) < 2 ^ 64 \<and> length (sizes b) < 2 ^ 64
        \<longrightarrow> (word_of_nat (length (sizes a)) :: size_t) \<noteq> word_of_nat (length (sizes b)))"
proof -
  have with_sizes: "Shape_hash H s True =
      HashCombine H (Hash_scalar_type H (scalar_type s)) (DataHash H (raw_bytes (sizes s)))"
    by (simp add: Shape_hash_def)
  have without_sizes: "Shape_hash H s False =
      HashCombine H (Hash_scalar_type H (scalar_type s))
        (Hash_size_t H (word_of_nat (length (sizes s))))"
    by (simp add: Shape_hash_def vector_size_def)
  have count: "unat (vector_size (sizes s)) = length (sizes s)" if "length (sizes s) < 2 ^ 64"
    using that by (rule vector_size_unat)
  have bytes: "raw_bytes (sizes s) ! (8 * i + k) = ucast (drop_bit (8 * k) (sizes s ! i))"
    if "i < length (sizes s)" "k < 8"
    using that by (rule raw_bytes_nth)
  have same: "Shape_hash H a False = Shape_hash H b False"
    if "scalar_type a = scalar_type b" "length (sizes a) = length (sizes b)"
    using that by (simp add: Shape_hash_def vector_size_def)
  have differ: "raw_bytes (sizes a) \<noteq> raw_bytes (sizes b)" if "sizes a \<noteq> sizes b"
    using that raw_bytes_inj [of "sizes a" "sizes b"] by blast
  have ranks: "(word_of_nat (length (sizes a)) :: size_t) \<noteq> word_of_nat (length (sizes b))"
    if "length (sizes a) \<noteq> length (sizes b)"
      "length (sizes a) < 2 ^ 64" "length (sizes b) < 2 ^ 64"
    using vector_size_differs [OF that] by (simp add: vector_size_def)
  from with_sizes without_sizes count length_raw_bytes [of "sizes s"] bytes same differ ranks
  show ?thesis by blast
qed

theorem Shape_hash_variants_witness:
  "scalar_type (Shape_ctor float32 [2, 3]) = scalar_type (Shape_ctor float32 [2, 4])
   \<and> length (sizes (Shape_ctor float32 [2, 3])) = length (sizes (Shape_ctor float32 [2, 4]))
   \<and> sizes (Shape_ctor float32 [2, 3]) \<noteq> sizes (Shape_ctor float32 [2, 4])
   \<and> Shape_hash toy_hash_fns (Shape_ctor float32 [2, 3]) False
       = Shape_hash toy_hash_fns (Shape_ctor float32 [2, 4]) False
   \<and> raw_bytes (sizes (Shape_ctor float32 [2, 3])) \<noteq> raw_bytes (sizes (Shape_ctor float32 [2, 4]))
   \<and> unat (vector_size (sizes (Shape_ctor float32 [2, 3]))) = 2
   \<and> length (sizes (Shape_ctor float32 [2, 3])) \<noteq> length (sizes (Shape_ctor float32 [7]))
   \<and> Shape_hash toy_hash_fns (Shape_ctor float32 [2, 3]) False = 188
   \<and> Shape_hash toy_hash_fns (Shape_ctor float32 [7]) False = 187
   \<and> raw_bytes (sizes (Shape_ctor float32 [258])) = [2, 1, 0, 0, 0, 0, 0, 0]
   \<and> raw_bytes (sizes (Shape_ctor float32 [258])) ! (8 * 0 + 1) = 1"
  using Shape_hash_variants
    [of toy_hash_fns "Shape_ctor float32 [2, 3]" 0 0 "Shape_ctor float32 [2, 3]"
        "Shape_ctor float32 [2, 4]"]
    Shape_hash_variants
    [of toy_hash_fns "Shape_ctor float32 [7]" 0 0 "Shape_ctor float32 [2, 3]"
        "Shape_ctor float32 [7]"]
    Shape_hash_variants
    [of toy_hash_fns "Shape_ctor float32 [258]" 0 1 "Shape_ctor float32 [2, 3]"
        "Shape_ctor float32 [7]"]
  by (simp add: Shape_ctor_def toy_hash_fns_def raw_bytes_def int64_bytes_def upt_rec [of _ 8])

subsection \<open>The symbolic-shape flag\<close>

text \<open>
  Claim C4, as stated: any two calls of \<open>symbolicShapeEnabled\<close> in one process
  return the same value, whatever happens to the environment or to the flag between
  them. It fails for the flag: in a process started without the environment variable
  and with the flag off, the first call returns false; once the flag is set, the next
  call returns true.
\<close>

theorem symbolicShapeEnabled_same_for_all_calls_counterexample:
  "fst (symbolicShapeEnabled (process_start Map.empty)) = False
   \<and> fst (symbolicShapeEnabled (run (process_start Map.empty) [Call, SetFlag True])) = True"
  by (simp add: symbolicShapeEnabled_def process_start_def run_def getenv_def)

text \<open>
  Claim C4, amended. The first call returns true iff the environment variable
  \<open>LTC_ENABLE_SYMBOLIC_SHAPES\<close> is set or the flag is on, and caches whether the
  variable was set. Only that is cached: after any sequence of changes to the
  environment, changes to the flag and further calls, a call returns true iff the
  variable was set at the first call or the flag is on at the time of this call. So two
  calls return the same value whenever the flag has the same value at both, whatever
  happened to the environment.
\<close>

theorem symbolicShapeEnabled_caches_environment_only:
  "(static_enabled p = None \<longrightarrow>
      fst (symbolicShapeEnabled p)
        = (getenv p ''LTC_ENABLE_SYMBOLIC_SHAPES'' \<noteq> None \<or> FLAGS_ltc_enable_symbolic_shapes p)
      \<and> static_enabled (snd (symbolicShapeEnabled p))
        = Some (getenv p ''LTC_ENABLE_SYMBOLIC_SHAPES'' \<noteq> None))
   \<and> (static_enabled p = Some c \<longrightarrow>
      fst (symbolicShapeEnabled (run p evs))
        = (c \<or> FLAGS_ltc_enable_symbolic_shapes (run p evs)))
   \<and> (FLAGS_ltc_enable_symbolic_shapes (run (snd (symbolicShapeEnabled p)) evs)
        = FLAGS_ltc_enable_symbolic_shapes p \<longrightarrow>
      fst (symbolicShapeEnabled (run (snd (symbolicShapeEnabled p)) evs))
        = fst (symbolicShapeEnabled p))"
proof -
  have first: "fst (symbolicShapeEnabled p)
        = (getenv p ''LTC_ENABLE_SYMBOLIC_SHAPES'' \<noteq> None \<or> FLAGS_ltc_enable_symbolic_shapes p)
      \<and> static_enabled (snd (symbolicShapeEnabled p))
        = Some (getenv p ''LTC_ENABLE_SYMBOLIC_SHAPES'' \<noteq> None)"
    if "static_enabled p = None"
    using that by (simp add: call_first)
  have later: "fst (symbolicShapeEnabled (run q evs))
        = (d \<or> FLAGS_ltc_enable_symbolic_shapes (run q evs))"
    if "static_enabled q = Some d" for q d
    using that by (simp add: call_cached run_static)
  obtain d where d: "static_enabled (snd (symbolicShapeEnabled p)) = Some d"
    and r: "fst (symbolicShapeEnabled p) = (d \<or> FLAGS_ltc_enable_symbolic_shapes p)"
    by (cases "static_enabled p") (simp_all add: symbolicShapeEnabled_def)
  have again: "fst (symbolicShapeEnabled (run (snd (symbolicShapeEnabled p)) evs))
        = fst (symbolicShapeEnabled p)"
    if "FLAGS_ltc_enable_symbolic_shapes (run (snd (symbolicShapeEnabled p)) evs)
        = FLAGS_ltc_enable_symbolic_shapes p"
    using later [OF d] r that by simp
  from first later [of p c] again show ?thesis by blast
qed

theorem symbolicShapeEnabled_caches_environment_only_witness:
  "static_enabled (process_start Map.empty) = None
   \<and> fst (symbolicShapeEnabled (process_start Map.empty)) = False
   \<and> FLAGS_ltc_enable_symbolic_shapes
        (run (snd (symbolicShapeEnabled (process_start Map.empty)))
           [Setenv ''LTC_ENABLE_SYMBOLIC_SHAPES'' ''1'', Call])
       = FLAGS_ltc_enable_symbolic_shapes (process_start Map.empty)
   \<and> fst (symbolicShapeEnabled
        (run (snd (symbolicShapeEnabled (process_start Map.empty)))
           [Setenv ''LTC_ENABLE_SYMBOLIC_SHAPES'' ''1'', Call])) = False
   \<and> static_enabled (snd (symbolicShapeEnabled (process_start Map.empty))) = Some False"
  using symbolicShapeEnabled_caches_environment_only
    [of "process_start Map.empty" False "[Setenv ''LTC_ENABLE_SYMBOLIC_SHAPES'' ''1'', Call]"]
  by (simp add: process_start_def run_def getenv_def symbolicShapeEnabled_def)

subsection \<open>The length of the symbolic-dimension metadata\<close>

text \<open>
  Claim C5, as stated: \<open>with_symbolic_dims\<close>, given a sequence whose length differs
  from the number of sizes, either fails or cannot produce a shape that violates the
  invariant; and an operation handed such a shape stops. Neither holds: for
  \<open>float32[2,3]\<close> and a sequence of length one, \<open>with_symbolic_dims\<close> returns a
  shape that violates the invariant, and \<open>numel\<close> of that shape is 6.
\<close>

theorem with_symbolic_dims_unchecked_counterexample:
  "\<not> symbolic_dims_consistent (with_symbolic_dims (Shape_ctor float32 [2, 3]) (Some [True]))
   \<and> numel (with_symbolic_dims (Shape_ctor float32 [2, 3]) (Some [True])) = 6"
  by (simp add: symbolic_dims_consistent_def with_symbolic_dims_def Shape_ctor_def numel_def
      to_size_t_def)

text \<open>
  Claim C5, amended. A shape from the constructor satisfies the invariant.
  \<open>with_symbolic_dims\<close> checks nothing: its result satisfies the invariant exactly
  when the sequence is absent or has as many entries as the shape has sizes. The length
  is checked where the metadata is read: \<open>get_symbolic_shape\<close> of a lazy tensor fails
  with the internal assertion "Dims of two values are not consistent" exactly when the
  tensor's shape violates the invariant, and returns a symbolic shape otherwise.
\<close>

theorem symbolic_dims_checked_on_use:
  "symbolic_dims_consistent (Shape_ctor st szs)
   \<and> (symbolic_dims_consistent (with_symbolic_dims s d)
        \<longleftrightarrow> (case d of None \<Rightarrow> True | Some v \<Rightarrow> length v = length (sizes s)))
   \<and> (get_symbolic_shape (LtcTensor t)
        = Inl (InternalAssert ''Dims of two values are not consistent'')
        \<longleftrightarrow> \<not> symbolic_dims_consistent t)
   \<and> (symbolic_dims_consistent t \<longrightarrow> (\<exists>ss. get_symbolic_shape (LtcTensor t) = Inr ss))"
  by (simp add: symbolic_dims_consistent_def Shape_ctor_def with_symbolic_dims_def
      get_symbolic_shape_def split: option.split)

theorem symbolic_dims_checked_on_use_witness:
  "symbolic_dims_consistent (with_symbolic_dims (Shape_ctor float32 [2, 3]) (Some [True, False]))
   \<and> get_symbolic_shape
        (LtcTensor (with_symbolic_dims (Shape_ctor float32 [2, 3]) (Some [True, False])))
       = Inr (SymbolicShape (Some [None, Some 3]))
   \<and> get_symbolic_shape (LtcTensor (with_symbolic_dims (Shape_ctor float32 [2, 3]) (Some [True])))
       = Inl (InternalAssert ''Dims of two values are not consistent'')"
  using symbolic_dims_checked_on_use
    [of float32 "[2, 3]" "Shape_ctor float32 [2, 3]" "Some [True, False]"
        "with_symbolic_dims (Shape_ctor float32 [2, 3]) (Some [True, False])"]
    symbolic_dims_checked_on_use
    [of float32 "[2, 3]" "Shape_ctor float32 [2, 3]" "Some [True]"
        "with_symbolic_dims (Shape_ctor float32 [2, 3]) (Some [True])"]
  by (simp add: Shape_ctor_def get_symbolic_shape_def with_symbolic_dims_def upt_rec)

subsection \<open>Copy with new symbolic dimensions\<close>

text \<open>
  Claim C6. For every shape \<open>s\<close> and every optional boolean sequence \<open>d\<close>,
  \<open>with_symbolic_dims s d\<close> is a shape with the sizes and the scalar type of \<open>s\<close>, so it
  is equal to \<open>s\<close> under \<open>operator==\<close> (which does not look at the metadata), and its
  symbolic-dimension metadata is \<open>d\<close>; with an absent \<open>d\<close> the metadata is absent. The
  method is \<^verbatim>\<open>const\<close> and assigns to a copy, so the result is a new value and
  \<open>s\<close> is as it was.
\<close>

theorem with_symbolic_dims_copy:
  "sizes (with_symbolic_dims s d) = sizes s
   \<and> scalar_type (with_symbolic_dims s d) = scalar_type s
   \<and> shape_eq (with_symbolic_dims s d) s
   \<and> is_symbolic (with_symbolic_dims s d) = d
   \<and> is_symbolic (with_symbolic_dims s None) = None"
  by (simp add: with_symbolic_dims_def shape_eq_def)

subsection \<open>Element count\<close>

text \<open>
  Claim C7, as stated, read over the integers: the element count is the product of the
  sizes. It fails where the product does not fit 64 bits: for the sizes
  \<open>[2^32, 2^32]\<close> the count is 0 and the product is \<open>2^64\<close>.
\<close>

theorem numel_product_counterexample:
  "uint (numel (Shape_ctor float32 [4294967296, 4294967296]))
     \<noteq> prod_list (map sint [4294967296, 4294967296 :: int64_t])"
  by (simp add: numel_def Shape_ctor_def to_size_t_def)

text \<open>
  Claim C7, amended. For every shape, \<open>numel\<close> is the product of all sizes modulo
  \<open>2^64\<close>; it is the product itself whenever no size is negative and the product is
  below \<open>2^64\<close>. The empty product is 1: \<open>numel\<close> of \<open>float32[3,4,0]\<close> is 0 and
  \<open>numel\<close> of \<open>float32[]\<close> is 1.
\<close>

theorem numel_product:
  "uint (numel s) = prod_list (map sint (sizes s)) mod 2 ^ 64
   \<and> ((\<forall>x\<in>set (sizes s). 0 \<le> sint x) \<and> prod_list (map sint (sizes s)) < 2 ^ 64
        \<longrightarrow> uint (numel s) = prod_list (map sint (sizes s)))
   \<and> numel (Shape_ctor float32 [3, 4, 0]) = 0
   \<and> numel (Shape_ctor float32 []) = 1"
proof -
  have general: "uint (numel s) = prod_list (map sint (sizes s)) mod 2 ^ 64"
    by (rule numel_uint)
  have exact: "uint (numel s) = prod_list (map sint (sizes s))"
    if nonneg: "\<forall>x\<in>set (sizes s). 0 \<le> sint x"
      and fits: "prod_list (map sint (sizes s)) < 2 ^ 64"
  proof -
    from nonneg have "0 \<le> prod_list (map sint (sizes s))"
      by (intro prod_list_nonneg_int) simp
    with fits show ?thesis by (simp add: general)
  qed
  have zero: "numel (Shape_ctor float32 [3, 4, 0]) = 0"
    by (simp add: numel_def Shape_ctor_def to_size_t_def)
  have one: "numel (Shape_ctor float32 []) = 1"
    by (simp add: numel_def Shape_ctor_def)
  from general exact zero one show ?thesis by blast
qed

theorem numel_product_witness:
  "list_all (\<lambda>x. 0 \<le> sint x) (sizes (Shape_ctor float32 [3, 4, 5]))
   \<and> prod_list (map sint (sizes (Shape_ctor float32 [3, 4, 5]))) < 2 ^ 64
   \<and> uint (numel (Shape_ctor float32 [3, 4, 5])) = 60"
  using numel_product [of "Shape_ctor float32 [3, 4, 5]"]
  by (simp add: Shape_ctor_def)

subsection \<open>Equality of outputs\<close>

text \<open>
  Claim C8. Two outputs are equal iff they refer to the same node (the same address)
  and have the same index. So outputs with index 0 of two distinct nodes are not
  equal, and an output is equal to an output of the same node and index.
\<close>

theorem Output_eq_identity:
  "(Output_eq a b \<longleftrightarrow> node a = node b \<and> index a = index b)
   \<and> (Output_ne a b \<longleftrightarrow> \<not> Output_eq a b)
   \<and> (nodeA \<noteq> nodeB \<longrightarrow>
        \<not> Output_eq (Output_ctor nodeA 0) (Output_ctor nodeB 0)
        \<and> Output_ne (Output_ctor nodeA 0) (Output_ctor nodeB 0))
   \<and> Output_eq (Output_ctor nodeA 0) (Output_ctor nodeA 0)"
  by (simp add: Output_eq_def Output_ne_def Output_ctor_def)

theorem Output_eq_identity_witness:
  "(1 :: Node_ptr) \<noteq> 2
   \<and> Output_ne (Output_ctor 1 0) (Output_ctor 2 0)
   \<and> Output_eq (Output_ctor 1 0) (Output_ctor 1 0)"
  using Output_eq_identity [of "Output_ctor 1 0" "Output_ctor 2 0" 1 2]
  by (simp add: Output_ctor_def)

subsection \<open>Replacing the user metadata\<close>

text \<open>
  Claim C9. \<open>SetUserMetadata\<close> stores the given object (or null) as the node's user
  metadata and returns what was stored before (null when nothing was). The operation
  kind, the number of outputs, the node hash, both subgraph hashes and the hash chosen by
  the flag, the metadata, the shapes and the operands are as before.
\<close>

theorem SetUserMetadata_frame:
  "fst (SetUserMetadata n m) = user_metadata n
   \<and> user_metadata (snd (SetUserMetadata n m)) = m
   \<and> op (snd (SetUserMetadata n m)) = op n
   \<and> num_outputs (snd (SetUserMetadata n m)) = num_outputs n
   \<and> node_hash (snd (SetUserMetadata n m)) = node_hash n
   \<and> hash_with_sizes (snd (SetUserMetadata n m)) = hash_with_sizes n
   \<and> hash_without_sizes (snd (SetUserMetadata n m)) = hash_without_sizes n
   \<and> Node_hash enableDynamicShape (snd (SetUserMetadata n m)) = Node_hash enableDynamicShape n
   \<and> metadata (snd (SetUserMetadata n m)) = metadata n
   \<and> shapes (snd (SetUserMetadata n m)) = shapes n
   \<and> operands (snd (SetUserMetadata n m)) = operands n
   \<and> operands_as_outputs (snd (SetUserMetadata n m)) = operands_as_outputs n"
  by (simp add: SetUserMetadata_def hash_with_sizes_def hash_without_sizes_def Node_hash_def)

theorem SetUserMetadata_frame_witness:
  "fst (SetUserMetadata example_node (Some ''first'')) = None
   \<and> fst (SetUserMetadata (snd (SetUserMetadata example_node (Some ''first''))) (Some ''second''))
       = Some ''first''
   \<and> shapes (snd (SetUserMetadata example_node (Some ''first''))) = shapes example_node"
  using SetUserMetadata_frame [of example_node "Some ''first''"]
    SetUserMetadata_frame [of "snd (SetUserMetadata example_node (Some ''first''))" "Some ''second''"]
  by (simp add: example_node_def)

subsection \<open>Negative sizes\<close>

text \<open>
  Claim C10. The constructor keeps whatever signed 64-bit sizes it is given, negative
  ones included; \<open>numel\<close> never fails (it is a total function into \<open>size_t\<close>) and is the
  product of the sizes, each read as an unsigned 64-bit value, modulo \<open>2^64\<close>. Where the
  product \<open>P\<close> of the signed sizes is negative and above \<open>- 2^64\<close>, the count is the
  wrapped value \<open>2^64 + P\<close>; for a shape of one negative dimension \<open>n\<close> it is
  \<open>2^64 + n\<close>, which is at least \<open>2^63\<close>.
\<close>

theorem numel_negative_sizes_wrap:
  "sizes (Shape_ctor st szs) = szs
   \<and> unat (numel (Shape_ctor st szs)) = prod_list (map unat szs) mod 2 ^ 64
   \<and> (- (2 ^ 64) < prod_list (map sint szs) \<and> prod_list (map sint szs) < 0 \<longrightarrow>
        uint (numel (Shape_ctor st szs)) = 2 ^ 64 + prod_list (map sint szs))
   \<and> (sint n < 0 \<longrightarrow>
        uint (numel (Shape_ctor st [n])) = 2 ^ 64 + sint n
        \<and> 2 ^ 63 \<le> uint (numel (Shape_ctor st [n])))"
proof -
  have negative: "uint (numel (Shape_ctor st szs)) = 2 ^ 64 + prod_list (map sint szs)"
    if lo: "- (2 ^ 64) < prod_list (map sint szs)" and hi: "prod_list (map sint szs) < 0"
  proof -
    have "uint (numel (Shape_ctor st szs)) = prod_list (map sint szs) mod 2 ^ 64"
      using numel_uint [of "Shape_ctor st szs"] by (simp add: Shape_ctor_def)
    also have "\<dots> = (prod_list (map sint szs) + 2 ^ 64) mod 2 ^ 64"
      by simp
    also have "\<dots> = prod_list (map sint szs) + 2 ^ 64"
      using lo hi by (intro mod_pos_pos_trivial) simp_all
    finally show ?thesis by simp
  qed
  have kept: "sizes (Shape_ctor st szs) = szs"
    by (simp add: Shape_ctor_def)
  have wraps: "unat (numel (Shape_ctor st szs)) = prod_list (map unat szs) mod 2 ^ 64"
    using numel_unat [of "Shape_ctor st szs"] by (simp add: kept)
  have single: "uint (numel (Shape_ctor st [n])) = 2 ^ 64 + sint n
      \<and> 2 ^ 63 \<le> uint (numel (Shape_ctor st [n]))" if neg: "sint n < 0"
  proof -
    have lower: "- (2 ^ 63) \<le> sint n"
      using sint_ge [of n] by simp
    have "uint (numel (Shape_ctor st [n])) = sint n mod 2 ^ 64"
      using numel_uint [of "Shape_ctor st [n]"] by (simp add: Shape_ctor_def)
    also have "\<dots> = (sint n + 2 ^ 64) mod 2 ^ 64"
      by simp
    also have "\<dots> = sint n + 2 ^ 64"
      using neg lower by (intro mod_pos_pos_trivial) simp_all
    finally have eq: "uint (numel (Shape_ctor st [n])) = 2 ^ 64 + sint n"
      by simp
    with lower show ?thesis by simp
  qed
  from kept wraps negative single show ?thesis by blast
qed

theorem numel_negative_sizes_wrap_witness:
  "sint (- 1 :: int64_t) < 0
   \<and> prod_list (map sint [3, - 1 :: int64_t]) = - 3
   \<and> sizes (Shape_ctor float32 [3, - 1]) = [3, - 1]
   \<and> uint (numel (Shape_ctor float32 [3, - 1])) = 18446744073709551613
   \<and> uint (numel (Shape_ctor float32 [- 1])) = 18446744073709551615"
  using numel_negative_sizes_wrap [of float32 "[3, - 1]" "- 1"]
  by simp

end
